theory Spec2Isabelle
  imports Main "HOL-Library.AList"
begin

section \<open>JSON values and the Python operations the handler applies to them\<close>

text \<open>
  A decoded JSON document, as \<^verbatim>\<open>response.json()\<close> returns it. Python's \<^verbatim>\<open>None\<close> is
  \<open>JNull\<close>; a dict is an association list in insertion order. JSON numbers are
  modelled as integers, the only numbers the handler itself produces.
\<close>

datatype json =
    JNull
  | JBool bool
  | JInt int
  | JStr string
  | JList "json list"
  | JObj "(string \<times> json) list"

text \<open>The exceptions that can leave the handler without being turned into an HTTPException.\<close>

datatype pyexn = RequestError | JSONDecodeError | AttributeError | TypeError | KeyError | IndexError

text \<open>
  What the handler ends with when it does not return: an \<^verbatim>\<open>HTTPException\<close> with its
  status code and detail, or an exception that no \<^verbatim>\<open>except\<close> clause of the handler catches.
\<close>

datatype error = HTTPException int string | Unhandled pyexn

text \<open>Python truthiness, as used by \<^verbatim>\<open>if not x\<close> and \<^verbatim>\<open>if x\<close>.\<close>

fun truthy :: "json \<Rightarrow> bool" where
  "truthy JNull = False"
| "truthy (JBool b) = b"
| "truthy (JInt n) = (n \<noteq> 0)"
| "truthy (JStr s) = (s \<noteq> [])"
| "truthy (JList xs) = (xs \<noteq> [])"
| "truthy (JObj kvs) = (kvs \<noteq> [])"

text \<open>\<^verbatim>\<open>d.get(key, default)\<close>: only a dict has the method.\<close>

fun py_get :: "json \<Rightarrow> string \<Rightarrow> json \<Rightarrow> pyexn + json" where
  "py_get (JObj kvs) key dflt = Inr (case map_of kvs key of None \<Rightarrow> dflt | Some v \<Rightarrow> v)"
| "py_get _ key dflt = Inl AttributeError"

text \<open>\<^verbatim>\<open>d[key] = value\<close>: a dict keeps the position of an existing key and appends a new one.\<close>

fun py_setitem :: "json \<Rightarrow> string \<Rightarrow> json \<Rightarrow> pyexn + json" where
  "py_setitem (JObj kvs) key v = Inr (JObj (AList.update key v kvs))"
| "py_setitem _ key v = Inl TypeError"

text \<open>\<^verbatim>\<open>sub in s\<close> on strings: \<open>sub\<close> occurs in \<open>s\<close> as a contiguous piece.\<close>

fun str_contains :: "string \<Rightarrow> string \<Rightarrow> bool" where
  "str_contains [] sub = (sub = [])"
| "str_contains (c # cs) sub = (take (length sub) (c # cs) = sub \<or> str_contains cs sub)"

text \<open>\<^verbatim>\<open>'id' in img\<close>: a key test on a dict, a substring test on a string, a
  membership test on a list, a TypeError on anything else.\<close>

fun contains_id :: "json \<Rightarrow> pyexn + bool" where
  "contains_id (JObj kvs) = Inr (''id'' \<in> fst ` set kvs)"
| "contains_id (JStr s) = Inr (str_contains s ''id'')"
| "contains_id (JList xs) = Inr (JStr ''id'' \<in> set xs)"
| "contains_id _ = Inl TypeError"

text \<open>\<^verbatim>\<open>img['id']\<close>.\<close>

fun getitem_id :: "json \<Rightarrow> pyexn + json" where
  "getitem_id (JObj kvs) = (case map_of kvs ''id'' of None \<Rightarrow> Inl KeyError | Some v \<Rightarrow> Inr v)"
| "getitem_id _ = Inl TypeError"

text \<open>What \<^verbatim>\<open>for img in processed_images\<close> iterates over: the items of a list, the keys
  of a dict, the characters of a string.\<close>

fun py_iter :: "json \<Rightarrow> pyexn + json list" where
  "py_iter (JList xs) = Inr xs"
| "py_iter (JObj kvs) = Inr (map (\<lambda>kv. JStr (fst kv)) kvs)"
| "py_iter (JStr s) = Inr (map (\<lambda>c. JStr [c]) s)"
| "py_iter _ = Inl TypeError"

text \<open>\<^verbatim>\<open>[img['id'] for img in processed_images if 'id' in img]\<close>, item by item.\<close>

fun collect_ids :: "json list \<Rightarrow> pyexn + json list" where
  "collect_ids [] = Inr []"
| "collect_ids (img # rest) =
     (case contains_id img of
        Inl e \<Rightarrow> Inl e
      | Inr False \<Rightarrow> collect_ids rest
      | Inr True \<Rightarrow>
          (case getitem_id img of
             Inl e \<Rightarrow> Inl e
           | Inr v \<Rightarrow> (case collect_ids rest of Inl e \<Rightarrow> Inl e | Inr vs \<Rightarrow> Inr (v # vs))))"

text \<open>Sequencing of steps that may raise: the first exception ends the sequence.\<close>

definition raising :: "pyexn + 'a \<Rightarrow> ('a \<Rightarrow> pyexn + 'b) \<Rightarrow> pyexn + 'b" where
  "raising m f = (case m of Inl e \<Rightarrow> Inl e | Inr x \<Rightarrow> f x)"

text \<open>
  The image ids of a decoded image-service body:
  \<^verbatim>\<open>processed_images = body.get("processed_images", [])\<close> followed by the comprehension.
\<close>

definition image_ids_of :: "json \<Rightarrow> pyexn + json list" where
  "image_ids_of body =
     raising (py_get body ''processed_images'' (JList []))
       (\<lambda>processed_images. raising (py_iter processed_images) collect_ids)"

section \<open>The incoming payload (schemas/telegram\_webhook.py)\<close>

text \<open>A validated \<^verbatim>\<open>HttpUrl\<close> is a non-empty URL; it is kept as the string that
  \<^verbatim>\<open>str(...)\<close> gives.\<close>

record RawMessage =
  message :: string

record RawDataJson =
  raw_message :: RawMessage
  photos :: "string list"
  stock :: int
  video :: "string option"

record TelegramWebhookPayload =
  raw_data_json :: RawDataJson
  access_token :: string

section \<open>The HTTP client\<close>

text \<open>
  An httpx response: its status code, its body text, and the body decoded as JSON
  (\<open>None\<close> when \<^verbatim>\<open>.json()\<close> raises because the body is not JSON).
\<close>

record response =
  status_code :: int
  response_text :: string
  json_body :: "json option"

text \<open>A call either raises a transport-level exception or returns a response.\<close>

datatype outcome = NetworkError | Response response

text \<open>
  The five requests the handler can send. The product submission goes to the URL built
  from the vendor id, with the bearer token and the draft as JSON body.
\<close>

datatype request =
    GetUserInfo string
  | PostImages "string list"
  | PostVideoCheck string
  | PostDescription string
  | PostProduct json string json

text \<open>The client together with the services behind it: what each request is answered with.\<close>

type_synonym client = "request \<Rightarrow> outcome"

definition SMART_UPLOADER_URL :: string where
  "SMART_UPLOADER_URL = ''https://smart-uploader.basalam.dev/process-images''"

definition VIDEO_CHECK_URL :: string where
  "VIDEO_CHECK_URL = ''https://dwh-n8n.basalam.dev/webhook-test/Video-Check''"

text \<open>\<^verbatim>\<open>raise_for_status()\<close> passes exactly the 2xx responses.\<close>

definition is_success :: "response \<Rightarrow> bool" where
  "is_success r = (200 \<le> status_code r \<and> status_code r < 300)"

definition response_json :: "response \<Rightarrow> pyexn + json" where
  "response_json r = (case json_body r of None \<Rightarrow> Inl JSONDecodeError | Some j \<Rightarrow> Inr j)"

section \<open>Step 1.5: user info and vendor id\<close>

definition get_vendor_id :: "client \<Rightarrow> TelegramWebhookPayload \<Rightarrow> request list \<times> (error + json)" where
  "get_vendor_id client payload =
     (let req = GetUserInfo (access_token payload) in
      ([req],
       case client req of
         NetworkError \<Rightarrow> Inl (Unhandled RequestError)
       | Response user_info_response \<Rightarrow>
           if \<not> is_success user_info_response
           then Inl (HTTPException 401
                  (''Authentication failed: '' @ response_text user_info_response))
           else
             (case response_json user_info_response of
                Inl e \<Rightarrow> Inl (Unhandled e)
              | Inr user_data \<Rightarrow>
                  (case py_get user_data ''vendor'' (JObj []) of
                     Inl e \<Rightarrow> Inl (Unhandled e)
                   | Inr vendor \<Rightarrow>
                       (case py_get vendor ''id'' JNull of
                          Inl e \<Rightarrow> Inl (Unhandled e)
                        | Inr vendor_id \<Rightarrow>
                            if \<not> truthy vendor_id
                            then Inl (HTTPException 400
                                   ''User does not have a valid vendor account.'')
                            else Inr vendor_id)))))"

section \<open>Step 2: images and video\<close>

text \<open>
  The loop over the gathered results: the first task that ended in an exception fails the
  request with 504 and its URL; otherwise every task has a response.
\<close>

fun check_network_errors :: "(string \<times> outcome) list \<Rightarrow> error + response list" where
  "check_network_errors [] = Inr []"
| "check_network_errors ((failed_url, NetworkError) # rest) =
     Inl (HTTPException 504 (''Network error for '' @ failed_url))"
| "check_network_errors ((url, Response r) # rest) =
     (case check_network_errors rest of Inl e \<Rightarrow> Inl e | Inr rs \<Rightarrow> Inr (r # rs))"

text \<open>The \<^verbatim>\<open>except httpx.HTTPStatusError\<close> clause of the media stage.\<close>

definition media_status_error :: "string \<Rightarrow> response \<Rightarrow> error" where
  "media_status_error url r =
     HTTPException 502 (''Error from media service '' @ url @ '': '' @ response_text r)"

definition read_image_ids :: "response \<Rightarrow> error + json list" where
  "read_image_ids image_response =
     (if \<not> is_success image_response
      then Inl (media_status_error SMART_UPLOADER_URL image_response)
      else
        (case response_json image_response of
           Inl e \<Rightarrow> Inl (Unhandled e)
         | Inr body \<Rightarrow>
             (case image_ids_of body of
                Inl e \<Rightarrow> Inl (Unhandled e)
              | Inr image_ids \<Rightarrow>
                  if image_ids = []
                  then Inl (HTTPException 400 ''Uploader service returned no valid image IDs.'')
                  else Inr image_ids)))"

definition read_video_id :: "response \<Rightarrow> error + json" where
  "read_video_id video_response =
     (if \<not> is_success video_response
      then Inl (media_status_error VIDEO_CHECK_URL video_response)
      else
        (case response_json video_response of
           Inl e \<Rightarrow> Inl (Unhandled e)
         | Inr body \<Rightarrow>
             (case py_get body ''is_forbidden'' JNull of
                Inl e \<Rightarrow> Inl (Unhandled e)
              | Inr is_forbidden \<Rightarrow>
                  if \<not> truthy is_forbidden
                  then (case py_get body ''id'' JNull of
                          Inl e \<Rightarrow> Inl (Unhandled e)
                        | Inr video_id \<Rightarrow> Inr video_id)
                  else Inr JNull)))"

text \<open>
  Both tasks are created before either result is looked at, the image upload first; the
  stage returns the image ids and the video id (\<open>JNull\<close> for Python's \<^verbatim>\<open>None\<close>).
\<close>

definition process_media ::
  "client \<Rightarrow> TelegramWebhookPayload \<Rightarrow> request list \<times> (error + json list \<times> json)" where
  "process_media client payload =
     (let photo_links = photos (raw_data_json payload);
          video_link = video (raw_data_json payload);
          tasks = PostImages photo_links #
                    (case video_link of None \<Rightarrow> [] | Some v \<Rightarrow> [PostVideoCheck v]);
          task_urls = SMART_UPLOADER_URL #
                    (case video_link of None \<Rightarrow> [] | Some v \<Rightarrow> [VIDEO_CHECK_URL]);
          video_task_present = (video_link \<noteq> None)
      in (tasks,
          case check_network_errors (zip task_urls (map client tasks)) of
            Inl e \<Rightarrow> Inl e
          | Inr [] \<Rightarrow> Inl (Unhandled IndexError)
          | Inr (image_response # others) \<Rightarrow>
              (case read_image_ids image_response of
                 Inl e \<Rightarrow> Inl e
               | Inr image_ids \<Rightarrow>
                   if video_task_present
                   then (case others of
                           [] \<Rightarrow> Inl (Unhandled IndexError)
                         | video_response # _ \<Rightarrow>
                             (case read_video_id video_response of
                                Inl e \<Rightarrow> Inl e
                              | Inr video_id \<Rightarrow> Inr (image_ids, video_id)))
                   else Inr (image_ids, JNull))))"

section \<open>Steps 3 and 4: the description service and the injected fields\<close>

text \<open>Step 4, the assignments to \<^verbatim>\<open>basalam_ready_payload\<close> in the order of the source.\<close>

definition inject_media_ids :: "json \<Rightarrow> json list \<Rightarrow> json \<Rightarrow> json \<Rightarrow> int \<Rightarrow> pyexn + json" where
  "inject_media_ids basalam_ready_payload image_ids video_id vendor_id stock_value =
     raising (if image_ids \<noteq> []
              then raising (py_setitem basalam_ready_payload ''photo'' (hd image_ids))
                     (\<lambda>p. py_setitem p ''photos'' (JList (tl image_ids)))
              else Inr basalam_ready_payload)
     (\<lambda>p1. raising (if truthy video_id then py_setitem p1 ''video'' video_id else Inr p1)
     (\<lambda>p2. raising (py_setitem p2 ''vendor_id'' vendor_id)
     (\<lambda>p3. raising (py_setitem p3 ''preparation_days'' (JInt 1))
     (\<lambda>p4. raising (py_setitem p4 ''stock'' (JInt stock_value))
     (\<lambda>p5. raising (py_setitem p5 ''unit_type'' (JInt 6304))
     (\<lambda>p6. py_setitem p6 ''unit_quantity'' (JInt 1)))))))"

definition prepare_payload ::
  "client \<Rightarrow> TelegramWebhookPayload \<Rightarrow> json \<Rightarrow> json list \<Rightarrow> json \<Rightarrow> request list \<times> (error + json)" where
  "prepare_payload client payload vendor_id image_ids video_id =
     (let description = message (raw_message (raw_data_json payload));
          req = PostDescription description
      in ([req],
          case client req of
            NetworkError \<Rightarrow> Inl (Unhandled RequestError)
          | Response prep_response \<Rightarrow>
              if \<not> is_success prep_response
              then Inl (HTTPException 502
                     (''Error from Description service: '' @ response_text prep_response))
              else
                (case response_json prep_response of
                   Inl e \<Rightarrow> Inl (Unhandled e)
                 | Inr body \<Rightarrow>
                     (case py_get body ''data'' JNull of
                        Inl e \<Rightarrow> Inl (Unhandled e)
                      | Inr basalam_ready_payload \<Rightarrow>
                          if \<not> truthy basalam_ready_payload
                          then Inl (HTTPException 500
                                 ''Received invalid payload from description service.'')
                          else
                            (case inject_media_ids basalam_ready_payload image_ids video_id
                                    vendor_id (stock (raw_data_json payload)) of
                               Inl e \<Rightarrow> Inl (Unhandled e)
                             | Inr draft \<Rightarrow> Inr draft)))))"

section \<open>Step 5: submission\<close>

record submission =
  status :: string
  result_message :: string
  submitted_payload :: json
  basalam_response :: json

definition submit_product ::
  "client \<Rightarrow> TelegramWebhookPayload \<Rightarrow> json \<Rightarrow> json \<Rightarrow> request list \<times> (error + submission)" where
  "submit_product client payload vendor_id draft =
     (let req = PostProduct vendor_id (access_token payload) draft in
      ([req],
       case client req of
         NetworkError \<Rightarrow> Inl (Unhandled RequestError)
       | Response final_response \<Rightarrow>
           if \<not> is_success final_response
           then Inl (HTTPException 502
                  (''Final submission to Basalam API failed: '' @ response_text final_response))
           else
             (case response_json final_response of
                Inl e \<Rightarrow> Inl (Unhandled e)
              | Inr j \<Rightarrow>
                  Inr \<lparr>status = ''success'',
                       result_message = ''Product orchestrated and submitted successfully.'',
                       submitted_payload = draft,
                       basalam_response = j\<rparr>)))"

section \<open>The endpoint\<close>

text \<open>
  The handler returns the requests it sent, in the order it sent them, and either the
  error it ended with or the success body.
\<close>

definition create_product_from_webhook ::
  "client \<Rightarrow> TelegramWebhookPayload \<Rightarrow> request list \<times> (error + submission)" where
  "create_product_from_webhook client payload =
     (case get_vendor_id client payload of
        (t1, Inl e) \<Rightarrow> (t1, Inl e)
      | (t1, Inr vendor_id) \<Rightarrow>
          (case process_media client payload of
             (t2, Inl e) \<Rightarrow> (t1 @ t2, Inl e)
           | (t2, Inr (image_ids, video_id)) \<Rightarrow>
               (case prepare_payload client payload vendor_id image_ids video_id of
                  (t3, Inl e) \<Rightarrow> (t1 @ t2 @ t3, Inl e)
                | (t3, Inr draft) \<Rightarrow>
                    (case submit_product client payload vendor_id draft of
                       (t4, res) \<Rightarrow> (t1 @ t2 @ t3 @ t4, res)))))"

section \<open>A sample request and sample services\<close>

text \<open>
  Concrete inputs on which the theorems below are instantiated: a payload with two photo
  links, stock 5 and the message ``shirt'', and services that answer every request with a
  2xx response: vendor id 42, processed images 101 and 102, a permitted video with id 7,
  and the given \<open>data\<close> from the description service.
\<close>

definition reply :: "int \<Rightarrow> string \<Rightarrow> json option \<Rightarrow> outcome" where
  "reply code txt body = Response \<lparr>status_code = code, response_text = txt, json_body = body\<rparr>"

definition sample_links :: "string list" where
  "sample_links = [''https://img.example/a.jpg'', ''https://img.example/b.jpg'']"

definition sample_payload :: "string option \<Rightarrow> TelegramWebhookPayload" where
  "sample_payload v =
     \<lparr>raw_data_json =
        \<lparr>raw_message = \<lparr>message = ''shirt''\<rparr>, photos = sample_links, stock = 5, video = v\<rparr>,
      access_token = ''token''\<rparr>"

definition sample_client :: "json \<Rightarrow> client" where
  "sample_client data req =
     (case req of
        GetUserInfo tok \<Rightarrow>
          reply 200 ''user'' (Some (JObj [(''vendor'', JObj [(''id'', JInt 42)])]))
      | PostImages links \<Rightarrow>
          reply 200 ''images''
            (Some (JObj [(''processed_images'',
                          JList [JObj [(''id'', JInt 101)], JObj [(''id'', JInt 102)]])]))
      | PostVideoCheck link \<Rightarrow>
          reply 200 ''video'' (Some (JObj [(''is_forbidden'', JBool False), (''id'', JInt 7)]))
      | PostDescription raw_text \<Rightarrow>
          reply 200 ''description'' (Some (JObj [(''data'', data)]))
      | PostProduct vendor_id tok draft \<Rightarrow>
          reply 201 ''created'' (Some (JObj [(''id'', JInt 9000)])))"

definition sample_data :: json where
  "sample_data = JObj [(''title'', JStr ''shirt'')]"

definition sample_video :: string where
  "sample_video = ''https://media.example/clip.mp4''"

definition sample_draft :: json where
  "sample_draft =
     JObj [(''title'', JStr ''shirt''), (''photo'', JInt 101), (''photos'', JList [JInt 102]),
           (''vendor_id'', JInt 42), (''preparation_days'', JInt 1), (''stock'', JInt 5),
           (''unit_type'', JInt 6304), (''unit_quantity'', JInt 1)]"

lemmas handler_defs =
  create_product_from_webhook_def get_vendor_id_def process_media_def prepare_payload_def
  submit_product_def read_image_ids_def read_video_id_def media_status_error_def
  image_ids_of_def raising_def inject_media_ids_def is_success_def response_json_def
  SMART_UPLOADER_URL_def VIDEO_CHECK_URL_def

lemmas sample_defs =
  sample_client_def sample_payload_def sample_links_def sample_data_def sample_video_def
  sample_draft_def reply_def

section \<open>The requests each step sends\<close>

lemma fst_get_vendor_id:
  "fst (get_vendor_id client payload) = [GetUserInfo (access_token payload)]"
  by (simp add: get_vendor_id_def Let_def)

lemma fst_process_media:
  "fst (process_media client payload) =
     PostImages (photos (raw_data_json payload)) #
       (case video (raw_data_json payload) of None \<Rightarrow> [] | Some v \<Rightarrow> [PostVideoCheck v])"
  by (simp add: process_media_def Let_def)

lemma fst_prepare_payload:
  "fst (prepare_payload client payload vendor_id image_ids video_id) =
     [PostDescription (message (raw_message (raw_data_json payload)))]"
  by (simp add: prepare_payload_def Let_def)

lemma fst_submit_product:
  "fst (submit_product client payload vendor_id draft) =
     [PostProduct vendor_id (access_token payload) draft]"
  by (simp add: submit_product_def Let_def)

lemma get_vendor_id_trace:
  "get_vendor_id client payload = (t, r) \<Longrightarrow> t = [GetUserInfo (access_token payload)]"
  using fst_get_vendor_id [of client payload] by simp

lemma prepare_payload_trace:
  "prepare_payload client payload vendor_id image_ids video_id = (t, r) \<Longrightarrow>
     t = [PostDescription (message (raw_message (raw_data_json payload)))]"
  using fst_prepare_payload [of client payload vendor_id image_ids video_id] by simp

lemma submit_product_trace:
  "submit_product client payload vendor_id draft = (t, r) \<Longrightarrow>
     t = [PostProduct vendor_id (access_token payload) draft]"
  using fst_submit_product [of client payload vendor_id draft] by simp

lemma create_trace:
  "fst (create_product_from_webhook client payload) =
     GetUserInfo (access_token payload) #
       (case snd (get_vendor_id client payload) of
          Inl e \<Rightarrow> []
        | Inr vendor_id \<Rightarrow>
            fst (process_media client payload) @
              (case snd (process_media client payload) of
                 Inl e \<Rightarrow> []
               | Inr (image_ids, video_id) \<Rightarrow>
                   PostDescription (message (raw_message (raw_data_json payload))) #
                     (case snd (prepare_payload client payload vendor_id image_ids video_id) of
                        Inl e \<Rightarrow> []
                      | Inr draft \<Rightarrow> [PostProduct vendor_id (access_token payload) draft])))"
  by (auto simp: create_product_from_webhook_def split: sum.splits prod.splits
      dest!: get_vendor_id_trace prepare_payload_trace submit_product_trace)

lemma create_result:
  "snd (create_product_from_webhook client payload) =
     (case snd (get_vendor_id client payload) of
        Inl e \<Rightarrow> Inl e
      | Inr vendor_id \<Rightarrow>
          (case snd (process_media client payload) of
             Inl e \<Rightarrow> Inl e
           | Inr (image_ids, video_id) \<Rightarrow>
               (case snd (prepare_payload client payload vendor_id image_ids video_id) of
                  Inl e \<Rightarrow> Inl e
                | Inr draft \<Rightarrow> snd (submit_product client payload vendor_id draft))))"
  by (auto simp: create_product_from_webhook_def split: sum.splits prod.splits)

section \<open>What each step returns\<close>

lemma get_vendor_id_result:
  assumes "client (GetUserInfo (access_token payload)) = Response r"
    and "is_success r"
    and "json_body r = Some (JObj user_data)"
    and "map_of user_data ''vendor'' = Some (JObj vendor)"
  shows "snd (get_vendor_id client payload) =
           (case map_of vendor ''id'' of
              None \<Rightarrow> Inl (HTTPException 400 ''User does not have a valid vendor account.'')
            | Some vendor_id \<Rightarrow>
                if truthy vendor_id then Inr vendor_id
                else Inl (HTTPException 400 ''User does not have a valid vendor account.''))"
  using assms by (simp add: get_vendor_id_def Let_def response_json_def split: option.splits)

lemma process_media_result:
  "snd (process_media client payload) =
     (case client (PostImages (photos (raw_data_json payload))) of
        NetworkError \<Rightarrow> Inl (HTTPException 504 (''Network error for '' @ SMART_UPLOADER_URL))
      | Response image_response \<Rightarrow>
          (case video (raw_data_json payload) of
             None \<Rightarrow>
               (case read_image_ids image_response of
                  Inl e \<Rightarrow> Inl e
                | Inr image_ids \<Rightarrow> Inr (image_ids, JNull))
           | Some v \<Rightarrow>
               (case client (PostVideoCheck v) of
                  NetworkError \<Rightarrow> Inl (HTTPException 504 (''Network error for '' @ VIDEO_CHECK_URL))
                | Response video_response \<Rightarrow>
                    (case read_image_ids image_response of
                       Inl e \<Rightarrow> Inl e
                     | Inr image_ids \<Rightarrow>
                         (case read_video_id video_response of
                            Inl e \<Rightarrow> Inl e
                          | Inr video_id \<Rightarrow> Inr (image_ids, video_id))))))"
  by (simp add: process_media_def Let_def split: outcome.splits option.splits sum.splits)

lemma key_present: "(k \<in> fst ` set kvs) = (map_of kvs k \<noteq> None)"
  by (simp add: map_of_eq_None_iff)

lemma collect_ids_objects:
  "collect_ids (map JObj imgs) = Inr (List.map_filter (\<lambda>img. map_of img ''id'') imgs)"
proof (induction imgs)
  case Nil
  show ?case by simp
next
  case (Cons img imgs)
  show ?case
  proof (cases "map_of img ''id''")
    case None
    then have "''id'' \<notin> fst ` set img" by (simp add: key_present)
    with None Cons.IH show ?thesis by simp
  next
    case (Some v)
    then have "''id'' \<in> fst ` set img" by (simp add: key_present)
    with Some Cons.IH show ?thesis by simp
  qed
qed

lemma image_ids_of_objects:
  "map_of body ''processed_images'' = Some (JList (map JObj imgs)) \<Longrightarrow>
     image_ids_of (JObj body) = Inr (List.map_filter (\<lambda>img. map_of img ''id'') imgs)"
  by (simp add: image_ids_of_def raising_def collect_ids_objects)

lemma inject_media_ids_object:
  "inject_media_ids (JObj data) image_ids video_id vendor_id n =
     Inr (JObj
       (AList.updates
          [''vendor_id'', ''preparation_days'', ''stock'', ''unit_type'', ''unit_quantity'']
          [vendor_id, JInt 1, JInt n, JInt 6304, JInt 1]
          ((if truthy video_id then AList.update ''video'' video_id else id)
             ((if image_ids \<noteq> []
               then AList.updates [''photo'', ''photos''] [hd image_ids, JList (tl image_ids)]
               else id) data))))"
  by (simp add: inject_media_ids_def raising_def)

lemma inject_media_ids_not_object:
  "\<forall>kvs. j \<noteq> JObj kvs \<Longrightarrow> inject_media_ids j image_ids video_id vendor_id n = Inl TypeError"
  by (cases j) (auto simp: inject_media_ids_def raising_def)

lemma prepare_payload_result:
  assumes "client (PostDescription (message (raw_message (raw_data_json payload)))) = Response r"
    and "is_success r"
    and "json_body r = Some (JObj body)"
  shows "snd (prepare_payload client payload vendor_id image_ids video_id) =
           (case map_of body ''data'' of
              None \<Rightarrow> Inl (HTTPException 500 ''Received invalid payload from description service.'')
            | Some d \<Rightarrow>
                if \<not> truthy d
                then Inl (HTTPException 500 ''Received invalid payload from description service.'')
                else (case inject_media_ids d image_ids video_id vendor_id
                             (stock (raw_data_json payload)) of
                        Inl e \<Rightarrow> Inl (Unhandled e)
                      | Inr draft \<Rightarrow> Inr draft))"
  using assms by (simp add: prepare_payload_def Let_def response_json_def split: option.splits sum.splits)

section \<open>Which requests imply which results\<close>

lemma image_request_sent:
  "PostImages links \<in> set (fst (create_product_from_webhook client payload)) \<Longrightarrow>
     \<exists>vendor_id. snd (get_vendor_id client payload) = Inr vendor_id"
  by (cases "snd (get_vendor_id client payload)") (simp_all add: create_trace)

lemma later_request_sent:
  assumes "req \<in> set (fst (create_product_from_webhook client payload))"
    and "req = PostDescription raw_text \<or> req = PostProduct vendor_id token draft"
  shows "\<exists>image_ids video_id. snd (process_media client payload) = Inr (image_ids, video_id)"
  using assms
  by (cases "snd (get_vendor_id client payload)"; cases "snd (process_media client payload)")
     (auto simp: create_trace fst_process_media split: option.splits)

lemma product_request_sent:
  assumes "PostProduct vendor_id token draft \<in> set (fst (create_product_from_webhook client payload))"
  shows "\<exists>image_ids video_id.
           snd (get_vendor_id client payload) = Inr vendor_id \<and>
           snd (process_media client payload) = Inr (image_ids, video_id) \<and>
           snd (prepare_payload client payload vendor_id image_ids video_id) = Inr draft \<and>
           token = access_token payload"
proof (cases "snd (get_vendor_id client payload)")
  case (Inl e)
  with assms show ?thesis by (simp add: create_trace)
next
  case vendor: (Inr vid)
  show ?thesis
  proof (cases "snd (process_media client payload)")
    case (Inl e)
    with assms vendor show ?thesis
      by (auto simp: create_trace fst_process_media split: option.splits)
  next
    case (Inr media)
    obtain image_ids video_id where media: "media = (image_ids, video_id)" by (cases media)
    show ?thesis
    proof (cases "snd (prepare_payload client payload vid image_ids video_id)")
      case (Inl e)
      with assms vendor Inr media show ?thesis
        by (auto simp: create_trace fst_process_media split: option.splits)
    next
      case prepared: (Inr d)
      with assms vendor Inr media show ?thesis
        by (auto simp: create_trace fst_process_media split: option.splits)
    qed
  qed
qed

lemma read_image_ids_Inr:
  "read_image_ids r = Inr image_ids \<Longrightarrow>
     is_success r \<and> image_ids \<noteq> [] \<and>
     (\<exists>body. json_body r = Some body \<and> image_ids_of body = Inr image_ids)"
  by (auto simp: read_image_ids_def response_json_def split: if_splits option.splits sum.splits)

lemma process_media_Inr:
  assumes "snd (process_media client payload) = Inr (image_ids, video_id)"
  shows "\<exists>image_response body.
           client (PostImages (photos (raw_data_json payload))) = Response image_response \<and>
           is_success image_response \<and> json_body image_response = Some body \<and>
           image_ids_of body = Inr image_ids \<and> image_ids \<noteq> [] \<and>
           (case video (raw_data_json payload) of
              None \<Rightarrow> video_id = JNull
            | Some v \<Rightarrow>
                (\<exists>video_response. client (PostVideoCheck v) = Response video_response \<and>
                   read_video_id video_response = Inr video_id))"
  using assms
  by (auto simp: process_media_result split: outcome.splits option.splits sum.splits
      dest!: read_image_ids_Inr)

lemma read_image_ids_zero:
  "is_success r \<Longrightarrow> json_body r = Some body \<Longrightarrow> image_ids_of body = Inr [] \<Longrightarrow>
     read_image_ids r = Inl (HTTPException 400 ''Uploader service returned no valid image IDs.'')"
  by (simp add: read_image_ids_def response_json_def)

lemma prepare_payload_Inr:
  assumes "snd (prepare_payload client payload vendor_id image_ids video_id) = Inr draft"
  shows "\<exists>r body data.
           client (PostDescription (message (raw_message (raw_data_json payload)))) = Response r \<and>
           is_success r \<and> json_body r = Some (JObj body) \<and>
           map_of body ''data'' = Some data \<and> truthy data \<and>
           inject_media_ids data image_ids video_id vendor_id (stock (raw_data_json payload)) =
             Inr draft"
proof -
  let ?req = "PostDescription (message (raw_message (raw_data_json payload)))"
  from assms obtain r where r: "client ?req = Response r"
    by (cases "client ?req") (simp_all add: prepare_payload_def Let_def)
  from assms r have ok: "is_success r"
    by (auto simp: prepare_payload_def Let_def split: if_splits)
  from assms r ok obtain j where j: "json_body r = Some j"
    by (cases "json_body r") (simp_all add: prepare_payload_def Let_def response_json_def)
  from assms r ok j obtain body where body: "j = JObj body"
    by (cases j) (simp_all add: prepare_payload_def Let_def response_json_def)
  from assms r ok j body show ?thesis
    by (auto simp: prepare_payload_result split: option.splits if_splits sum.splits)
qed

section \<open>The fields of a submitted draft\<close>

lemma final_fields_other:
  assumes "k \<notin> {''vendor_id'', ''preparation_days'', ''stock'', ''unit_type'', ''unit_quantity''}"
  shows "map_of (AList.updates
                 [''vendor_id'', ''preparation_days'', ''stock'', ''unit_type'', ''unit_quantity'']
                 [a, b, c, d, e] al) k = map_of al k"
  using assms by (simp add: AList.update_conv')

lemma media_fields:
  "map_of ((if c then AList.update ''video'' x else id)
             (AList.updates [''photo'', ''photos''] [p, ps] al)) ''photo'' = Some p"
  "map_of ((if c then AList.update ''video'' x else id)
             (AList.updates [''photo'', ''photos''] [p, ps] al)) ''photos'' = Some ps"
  "map_of ((if c then AList.update ''video'' x else id)
             (AList.updates [''photo'', ''photos''] [p, ps] al)) ''video'' =
     (if c then Some x else map_of al ''video'')"
  by (simp_all add: AList.update_conv')

lemma inject_media_ids_Inr:
  assumes "inject_media_ids data (first_id # other_ids) video_id vendor_id n = Inr draft"
  shows "\<exists>kvs d. data = JObj kvs \<and> draft = JObj d \<and>
           map_of d ''photo'' = Some first_id \<and>
           map_of d ''photos'' = Some (JList other_ids) \<and>
           map_of d ''video'' = (if truthy video_id then Some video_id else map_of kvs ''video'')"
proof (cases "\<exists>kvs. data = JObj kvs")
  case True
  then obtain kvs where kvs: "data = JObj kvs" by blast
  let ?d = "AList.updates
              [''vendor_id'', ''preparation_days'', ''stock'', ''unit_type'', ''unit_quantity'']
              [vendor_id, JInt 1, JInt n, JInt 6304, JInt 1]
              ((if truthy video_id then AList.update ''video'' video_id else id)
                 (AList.updates [''photo'', ''photos''] [first_id, JList other_ids] kvs))"
  from assms kvs have d: "draft = JObj ?d"
    by (simp only: inject_media_ids_object list.sel sum.inject if_True list.distinct
        not_False_eq_True)
  have "map_of ?d ''photo'' = Some first_id"
    by (subst final_fields_other) (simp_all only: media_fields, simp)
  moreover have "map_of ?d ''photos'' = Some (JList other_ids)"
    by (subst final_fields_other) (simp_all only: media_fields, simp)
  moreover have "map_of ?d ''video'' = (if truthy video_id then Some video_id else map_of kvs ''video'')"
    by (subst final_fields_other) (simp_all only: media_fields, simp)
  ultimately show ?thesis using kvs d by blast
next
  case False
  with assms show ?thesis by (simp add: inject_media_ids_not_object)
qed

lemma map_filter_all:
  "\<forall>x\<in>set xs. f x \<noteq> None \<Longrightarrow> map Some (List.map_filter f xs) = map f xs"
  by (induction xs) auto

lemma submitted_draft:
  assumes "PostProduct vendor_id token draft \<in> set (fst (create_product_from_webhook client payload))"
  obtains first_id other_ids video_id r body kvs d where
    "snd (process_media client payload) = Inr (first_id # other_ids, video_id)"
    "client (PostDescription (message (raw_message (raw_data_json payload)))) = Response r"
    "json_body r = Some (JObj body)" "map_of body ''data'' = Some (JObj kvs)"
    "draft = JObj d"
    "map_of d ''photo'' = Some first_id"
    "map_of d ''photos'' = Some (JList other_ids)"
    "map_of d ''video'' = (if truthy video_id then Some video_id else map_of kvs ''video'')"
proof -
  from product_request_sent [OF assms] obtain image_ids video_id where
    m: "snd (process_media client payload) = Inr (image_ids, video_id)" and
    p: "snd (prepare_payload client payload vendor_id image_ids video_id) = Inr draft"
    by blast
  from process_media_Inr [OF m] have "image_ids \<noteq> []" by blast
  then obtain first_id other_ids where ids: "image_ids = first_id # other_ids"
    by (cases image_ids) simp_all
  from prepare_payload_Inr [OF p] obtain r body data where
    r: "client (PostDescription (message (raw_message (raw_data_json payload)))) = Response r"
       "json_body r = Some (JObj body)" "map_of body ''data'' = Some data" and
    i: "inject_media_ids data image_ids video_id vendor_id (stock (raw_data_json payload)) = Inr draft"
    by blast
  from inject_media_ids_Inr [OF i [unfolded ids]] obtain kvs d where
    d: "data = JObj kvs" "draft = JObj d" "map_of d ''photo'' = Some first_id"
       "map_of d ''photos'' = Some (JList other_ids)"
       "map_of d ''video'' = (if truthy video_id then Some video_id else map_of kvs ''video'')"
    by blast
  show thesis
    by (rule that [OF m [unfolded ids] r(1) r(2) r(3) [unfolded d(1)] d(2) d(3) d(4) d(5)])
qed

section \<open>From the media stage to the description stage\<close>

lemma description_request_sent:
  assumes "PostDescription raw_text \<in> set (fst (create_product_from_webhook client payload))"
  obtains vendor_id image_ids video_id where
    "raw_text = message (raw_message (raw_data_json payload))"
    "snd (get_vendor_id client payload) = Inr vendor_id"
    "snd (process_media client payload) = Inr (image_ids, video_id)"
proof (cases "snd (get_vendor_id client payload)")
  case (Inl e)
  with assms show ?thesis by (simp add: create_trace)
next
  case vendor: (Inr vid)
  show ?thesis
  proof (cases "snd (process_media client payload)")
    case (Inl e)
    with assms vendor show ?thesis
      by (auto simp: create_trace fst_process_media split: option.splits)
  next
    case (Inr media)
    obtain image_ids video_id where media: "media = (image_ids, video_id)" by (cases media)
    from assms vendor Inr media
    have "raw_text = message (raw_message (raw_data_json payload))"
      by (auto simp: create_trace fst_process_media split: option.splits sum.splits)
    then show ?thesis using that vendor Inr media by blast
  qed
qed

lemma prepare_payload_rejects:
  assumes "client (PostDescription (message (raw_message (raw_data_json payload)))) = Response r"
    and "is_success r"
    and "\<not> (\<exists>body data. json_body r = Some (JObj body) \<and>
               map_of body ''data'' = Some (JObj data) \<and> data \<noteq> [])"
  shows "\<exists>e. snd (prepare_payload client payload vendor_id image_ids video_id) = Inl e"
proof (cases "snd (prepare_payload client payload vendor_id image_ids video_id)")
  case (Inl e)
  then show ?thesis by blast
next
  case (Inr draft)
  from prepare_payload_Inr [OF Inr] assms(1) obtain body data where
    b: "json_body r = Some (JObj body)" "map_of body ''data'' = Some data" "truthy data"
       "inject_media_ids data image_ids video_id vendor_id (stock (raw_data_json payload)) = Inr draft"
    by auto
  from b(4) obtain kvs where "data = JObj kvs"
    by (cases "\<exists>kvs. data = JObj kvs") (auto simp: inject_media_ids_not_object)
  with b assms(3) show ?thesis by auto
qed

lemma media_with_video:
  assumes "video (raw_data_json payload) = Some link"
    and "client (PostVideoCheck link) = Response video_response"
    and "read_video_id video_response = Inr video_id"
    and "client (PostImages (photos (raw_data_json payload))) = Response image_response"
    and "is_success image_response"
    and "json_body image_response = Some image_body"
    and "image_ids_of image_body = Inr (first_id # other_ids)"
  shows "process_media client payload =
           ([PostImages (photos (raw_data_json payload)), PostVideoCheck link],
            Inr (first_id # other_ids, video_id))"
proof -
  have "read_image_ids image_response = Inr (first_id # other_ids)"
    using assms(5-7) by (simp add: read_image_ids_def response_json_def)
  then have "snd (process_media client payload) = Inr (first_id # other_ids, video_id)"
    using assms(1-4) by (simp add: process_media_result)
  moreover have "fst (process_media client payload) =
      [PostImages (photos (raw_data_json payload)), PostVideoCheck link]"
    using assms(1) by (simp add: fst_process_media)
  ultimately show ?thesis by (simp add: prod_eq_iff)
qed

lemma description_follows_media:
  assumes "PostImages links \<in> set (fst (create_product_from_webhook client payload))"
    and "snd (process_media client payload) = Inr media"
  shows "PostDescription (message (raw_message (raw_data_json payload)))
           \<in> set (fst (create_product_from_webhook client payload))"
proof -
  from image_request_sent [OF assms(1)] obtain vid where
    "snd (get_vendor_id client payload) = Inr vid" by blast
  with assms(2) show ?thesis
    by (cases media) (simp add: create_trace)
qed

lemma video_id_of_media:
  assumes "snd (process_media client payload) = Inr (image_ids, video_id)"
    and "video (raw_data_json payload) = Some link"
    and "client (PostVideoCheck link) = Response video_response"
  shows "read_video_id video_response = Inr video_id"
  using process_media_Inr [OF assms(1)] assms(2,3) by auto

lemma draft_video_untouched:
  assumes "PostProduct vendor_id token draft \<in> set (fst (create_product_from_webhook client payload))"
    and "\<And>image_ids video_id.
           snd (process_media client payload) = Inr (image_ids, video_id) \<Longrightarrow> \<not> truthy video_id"
  shows "\<exists>prep_response prep_body data d.
           client (PostDescription (message (raw_message (raw_data_json payload)))) =
             Response prep_response \<and>
           json_body prep_response = Some (JObj prep_body) \<and>
           map_of prep_body ''data'' = Some (JObj data) \<and>
           draft = JObj d \<and> map_of d ''video'' = map_of data ''video''"
proof -
  from assms(1) obtain first_id other_ids video_id r body kvs d where
    s: "snd (process_media client payload) = Inr (first_id # other_ids, video_id)"
       "client (PostDescription (message (raw_message (raw_data_json payload)))) = Response r"
       "json_body r = Some (JObj body)" "map_of body ''data'' = Some (JObj kvs)"
       "draft = JObj d"
       "map_of d ''video'' = (if truthy video_id then Some video_id else map_of kvs ''video'')"
    by (rule submitted_draft)
  from assms(2) [OF s(1)] s(6) have "map_of d ''video'' = map_of kvs ''video''" by simp
  with s(2-5) show ?thesis by blast
qed

lemma draft_video_of_media:
  assumes "PostProduct vendor_id token draft \<in> set (fst (create_product_from_webhook client payload))"
    and "\<And>image_ids video_id.
           snd (process_media client payload) = Inr (image_ids, video_id) \<Longrightarrow> video_id = v"
  shows "\<exists>prep_response prep_body data d.
           client (PostDescription (message (raw_message (raw_data_json payload)))) =
             Response prep_response \<and>
           json_body prep_response = Some (JObj prep_body) \<and>
           map_of prep_body ''data'' = Some (JObj data) \<and>
           draft = JObj d \<and>
           map_of d ''video'' = (if truthy v then Some v else map_of data ''video'')"
proof -
  from assms(1) obtain first_id other_ids video_id r body kvs d where
    s: "snd (process_media client payload) = Inr (first_id # other_ids, video_id)"
       "client (PostDescription (message (raw_message (raw_data_json payload)))) = Response r"
       "json_body r = Some (JObj body)" "map_of body ''data'' = Some (JObj kvs)"
       "draft = JObj d"
       "map_of d ''video'' = (if truthy video_id then Some video_id else map_of kvs ''video'')"
    by (rule submitted_draft)
  from assms(2) [OF s(1)] s(6)
  have "map_of d ''video'' = (if truthy v then Some v else map_of kvs ''video'')" by simp
  with s(2-5) show ?thesis by blast
qed

section \<open>Claims about the vendor lookup\<close>

text \<open>
  Claim C4, as the handler implements it. When the user-info call returns a response
  whose status is not 2xx, the handler fails with HTTPException 401 whose detail is
  ``Authentication failed: '' followed by the body text of that response, and the only
  request it has sent is the user-info call: no media, description or submission call.
  The downstream status code is logged but is not part of the error.
\<close>

theorem user_info_rejected:
  assumes "client (GetUserInfo (access_token payload)) = Response r"
    and "\<not> is_success r"
  shows "create_product_from_webhook client payload =
           ([GetUserInfo (access_token payload)],
            Inl (HTTPException 401 (''Authentication failed: '' @ response_text r)))"
proof -
  have "snd (get_vendor_id client payload) =
          Inl (HTTPException 401 (''Authentication failed: '' @ response_text r))"
    using assms by (simp add: get_vendor_id_def Let_def)
  then show ?thesis
    by (simp add: prod_eq_iff create_trace create_result)
qed

theorem user_info_rejected_witness:
  "create_product_from_webhook
     ((sample_client sample_data)(GetUserInfo ''token'' := reply 403 ''denied'' None))
     (sample_payload None) =
   ([GetUserInfo ''token''], Inl (HTTPException 401 ''Authentication failed: denied''))"
  using user_info_rejected
    [of "(sample_client sample_data)(GetUserInfo ''token'' := reply 403 ''denied'' None)"
        "sample_payload None"
        "\<lparr>status_code = 403, response_text = ''denied'', json_body = None\<rparr>"]
  by (simp add: sample_payload_def reply_def is_success_def)

text \<open>
  Claim C4 as stated says that the error carries the downstream status. Two user-info
  responses with the same body and the statuses 403 and 500 end the handler in exactly
  the same way, with an error that holds the body only.
\<close>

theorem user_info_status_not_in_error:
  "create_product_from_webhook
     ((sample_client sample_data)(GetUserInfo ''token'' := reply 403 ''denied'' None))
     (sample_payload None) =
   create_product_from_webhook
     ((sample_client sample_data)(GetUserInfo ''token'' := reply 500 ''denied'' None))
     (sample_payload None) \<and>
   snd (create_product_from_webhook
     ((sample_client sample_data)(GetUserInfo ''token'' := reply 403 ''denied'' None))
     (sample_payload None)) = Inl (HTTPException 401 ''Authentication failed: denied'')"
  by (simp add: handler_defs sample_defs)

text \<open>
  Claim C9. When the user-info response is 2xx and its \<open>vendor\<close> object has no \<open>id\<close>,
  or an \<open>id\<close> that is falsy (null, 0, the empty string, ...), the handler fails with
  HTTPException 400 ``User does not have a valid vendor account.'' after the user-info
  call alone; the result is the same in all of these cases, so a vendor id of 0 is
  never accepted.
\<close>

theorem falsy_vendor_id_rejected:
  assumes "client (GetUserInfo (access_token payload)) = Response r"
    and "is_success r"
    and "json_body r = Some (JObj user_data)"
    and "map_of user_data ''vendor'' = Some (JObj vendor)"
    and "\<forall>x. map_of vendor ''id'' = Some x \<longrightarrow> \<not> truthy x"
  shows "create_product_from_webhook client payload =
           ([GetUserInfo (access_token payload)],
            Inl (HTTPException 400 ''User does not have a valid vendor account.''))"
proof -
  have "snd (get_vendor_id client payload) =
          Inl (HTTPException 400 ''User does not have a valid vendor account.'')"
    using assms by (simp add: get_vendor_id_result split: option.splits)
  then show ?thesis
    by (simp add: prod_eq_iff create_trace create_result)
qed

theorem falsy_vendor_id_rejected_witness:
  "create_product_from_webhook
     ((sample_client sample_data)
        (GetUserInfo ''token'' :=
           reply 200 ''user'' (Some (JObj [(''vendor'', JObj [(''id'', JInt 0)])]))))
     (sample_payload None) =
   ([GetUserInfo ''token''],
    Inl (HTTPException 400 ''User does not have a valid vendor account.''))"
  using falsy_vendor_id_rejected
    [of "(sample_client sample_data)
           (GetUserInfo ''token'' :=
              reply 200 ''user'' (Some (JObj [(''vendor'', JObj [(''id'', JInt 0)])])))"
        "sample_payload None"
        "\<lparr>status_code = 200, response_text = ''user'',
          json_body = Some (JObj [(''vendor'', JObj [(''id'', JInt 0)])])\<rparr>"
        "[(''vendor'', JObj [(''id'', JInt 0)])]" "[(''id'', JInt 0)]"]
  by (simp add: sample_payload_def reply_def is_success_def)

section \<open>Claims about the media stage\<close>

text \<open>
  Claim C8. For a payload without a video link the media stage sends the image-upload
  request and nothing else, and no video-check request occurs anywhere among the
  requests of the handler.
\<close>

theorem no_video_link_no_video_check:
  assumes "video (raw_data_json payload) = None"
  shows "fst (process_media client payload) = [PostImages (photos (raw_data_json payload))] \<and>
         PostVideoCheck link \<notin> set (fst (create_product_from_webhook client payload))"
  using assms by (simp add: create_trace fst_process_media split: sum.splits prod.splits)

theorem no_video_link_no_video_check_witness:
  "video (raw_data_json (sample_payload None)) = None \<and>
   fst (process_media (sample_client sample_data) (sample_payload None)) = [PostImages sample_links] \<and>
   PostVideoCheck sample_video \<notin>
     set (fst (create_product_from_webhook (sample_client sample_data) (sample_payload None)))"
  using no_video_link_no_video_check
    [of "sample_payload None" "sample_client sample_data" sample_video]
  by (simp add: sample_payload_def)

text \<open>
  Claim C3, as the handler implements it. Whenever the image service answers with a body
  that yields no valid image id, no description request and no product submission is
  sent. If moreover the image request was sent, its response is 2xx and the video check
  (when there is one) did not fail at transport level, the handler fails with
  HTTPException 400 ``Uploader service returned no valid image IDs.''. And every product
  submission carries a draft whose \<open>photo\<close> is the first of a non-empty list of valid
  image ids read from the image response.
\<close>

theorem no_valid_image_ids:
  "(client (PostImages (photos (raw_data_json payload))) = Response image_response \<and>
    json_body image_response = Some body \<and> image_ids_of body = Inr [] \<longrightarrow>
      PostDescription raw_text \<notin> set (fst (create_product_from_webhook client payload)) \<and>
      PostProduct vendor_id token draft \<notin> set (fst (create_product_from_webhook client payload)) \<and>
      (PostImages (photos (raw_data_json payload))
         \<in> set (fst (create_product_from_webhook client payload)) \<and>
       is_success image_response \<and>
       (\<forall>v. video (raw_data_json payload) = Some v \<longrightarrow> client (PostVideoCheck v) \<noteq> NetworkError) \<longrightarrow>
         snd (create_product_from_webhook client payload) =
           Inl (HTTPException 400 ''Uploader service returned no valid image IDs.''))) \<and>
   (PostProduct vendor_id token draft \<in> set (fst (create_product_from_webhook client payload)) \<longrightarrow>
      (\<exists>image_response body first_id other_ids.
         client (PostImages (photos (raw_data_json payload))) = Response image_response \<and>
         json_body image_response = Some body \<and>
         image_ids_of body = Inr (first_id # other_ids) \<and>
         py_get draft ''photo'' JNull = Inr first_id))"
proof (intro conjI impI)
  assume h: "client (PostImages (photos (raw_data_json payload))) = Response image_response \<and>
    json_body image_response = Some body \<and> image_ids_of body = Inr []"
  have none: "\<And>image_ids video_id. snd (process_media client payload) \<noteq> Inr (image_ids, video_id)"
  proof
    fix image_ids video_id
    assume "snd (process_media client payload) = Inr (image_ids, video_id)"
    from process_media_Inr [OF this] h show False by auto
  qed
  show "PostDescription raw_text \<notin> set (fst (create_product_from_webhook client payload))"
    using later_request_sent [of "PostDescription raw_text" client payload raw_text] none by blast
  show "PostProduct vendor_id token draft \<notin> set (fst (create_product_from_webhook client payload))"
    using later_request_sent [of "PostProduct vendor_id token draft" client payload _ vendor_id token draft]
      none by blast
  assume r: "PostImages (photos (raw_data_json payload))
         \<in> set (fst (create_product_from_webhook client payload)) \<and>
       is_success image_response \<and>
       (\<forall>v. video (raw_data_json payload) = Some v \<longrightarrow> client (PostVideoCheck v) \<noteq> NetworkError)"
  then obtain vid where vid: "snd (get_vendor_id client payload) = Inr vid"
    using image_request_sent by blast
  have "read_image_ids image_response =
          Inl (HTTPException 400 ''Uploader service returned no valid image IDs.'')"
    using h r by (simp add: read_image_ids_zero)
  then have "snd (process_media client payload) =
          Inl (HTTPException 400 ''Uploader service returned no valid image IDs.'')"
    using h r by (auto simp: process_media_result split: option.splits outcome.splits)
  then show "snd (create_product_from_webhook client payload) =
           Inl (HTTPException 400 ''Uploader service returned no valid image IDs.'')"
    using vid by (simp add: create_result)
next
  assume "PostProduct vendor_id token draft \<in> set (fst (create_product_from_webhook client payload))"
  from product_request_sent [OF this] obtain image_ids video_id where
    m: "snd (process_media client payload) = Inr (image_ids, video_id)" and
    p: "snd (prepare_payload client payload vendor_id image_ids video_id) = Inr draft"
    by blast
  from process_media_Inr [OF m] obtain image_response body where
    i: "client (PostImages (photos (raw_data_json payload))) = Response image_response"
       "json_body image_response = Some body" "image_ids_of body = Inr image_ids" "image_ids \<noteq> []"
    by blast
  from i(4) obtain first_id other_ids where ids: "image_ids = first_id # other_ids"
    by (cases image_ids) simp_all
  from prepare_payload_Inr [OF p] obtain data where
    d: "inject_media_ids data image_ids video_id vendor_id (stock (raw_data_json payload)) = Inr draft"
    by blast
  have "py_get draft ''photo'' JNull = Inr first_id"
  proof (cases "\<exists>kvs. data = JObj kvs")
    case True
    then obtain kvs where "data = JObj kvs" by blast
    with d ids show ?thesis
      by (auto simp: inject_media_ids_object AList.update_conv')
  next
    case False
    with d show ?thesis by (simp add: inject_media_ids_not_object)
  qed
  with i ids show "\<exists>image_response body first_id other_ids.
         client (PostImages (photos (raw_data_json payload))) = Response image_response \<and>
         json_body image_response = Some body \<and>
         image_ids_of body = Inr (first_id # other_ids) \<and>
         py_get draft ''photo'' JNull = Inr first_id"
    by blast
qed

theorem no_valid_image_ids_witness:
  "image_ids_of (JObj [(''processed_images'', JList [])]) = Inr [] \<and>
   create_product_from_webhook
     ((sample_client sample_data)
        (PostImages sample_links :=
           reply 200 ''images'' (Some (JObj [(''processed_images'', JList [])]))))
     (sample_payload None) =
   ([GetUserInfo ''token'', PostImages sample_links],
    Inl (HTTPException 400 ''Uploader service returned no valid image IDs.'')) \<and>
   PostProduct (JInt 42) ''token''
     (JObj [(''title'', JStr ''shirt''), (''photo'', JInt 101), (''photos'', JList [JInt 102]),
            (''vendor_id'', JInt 42), (''preparation_days'', JInt 1), (''stock'', JInt 5),
            (''unit_type'', JInt 6304), (''unit_quantity'', JInt 1)])
     \<in> set (fst (create_product_from_webhook (sample_client sample_data) (sample_payload None))) \<and>
   py_get
     (JObj [(''title'', JStr ''shirt''), (''photo'', JInt 101), (''photos'', JList [JInt 102]),
            (''vendor_id'', JInt 42), (''preparation_days'', JInt 1), (''stock'', JInt 5),
            (''unit_type'', JInt 6304), (''unit_quantity'', JInt 1)])
     ''photo'' JNull = Inr (JInt 101)"
  using no_valid_image_ids
    [of "(sample_client sample_data)
           (PostImages sample_links :=
              reply 200 ''images'' (Some (JObj [(''processed_images'', JList [])])))"
        "sample_payload None"
        "\<lparr>status_code = 200, response_text = ''images'',
          json_body = Some (JObj [(''processed_images'', JList [])])\<rparr>"
        "JObj [(''processed_images'', JList [])]" "''shirt''" "JInt 42" "''token''"
        "JObj [(''title'', JStr ''shirt''), (''photo'', JInt 101), (''photos'', JList [JInt 102]),
            (''vendor_id'', JInt 42), (''preparation_days'', JInt 1), (''stock'', JInt 5),
            (''unit_type'', JInt 6304), (''unit_quantity'', JInt 1)]"]
    no_valid_image_ids
    [of "sample_client sample_data" "sample_payload None" _ _ _ "JInt 42" "''token''"
        "JObj [(''title'', JStr ''shirt''), (''photo'', JInt 101), (''photos'', JList [JInt 102]),
            (''vendor_id'', JInt 42), (''preparation_days'', JInt 1), (''stock'', JInt 5),
            (''unit_type'', JInt 6304), (''unit_quantity'', JInt 1)]"]
  by (simp add: handler_defs sample_defs)

text \<open>
  Claim C3 as stated promises the 400 error whenever the image service returns zero valid
  ids. The loop over the gathered results runs first: with a video check that failed at
  transport level, the same image response ends in a 504 for the video-check URL.
\<close>

theorem no_valid_image_ids_network_error_first:
  "image_ids_of (JObj [(''processed_images'', JList [])]) = Inr [] \<and>
   create_product_from_webhook
     ((sample_client sample_data)
        (PostImages sample_links :=
           reply 200 ''images'' (Some (JObj [(''processed_images'', JList [])])),
         PostVideoCheck sample_video := NetworkError))
     (sample_payload (Some sample_video)) =
   ([GetUserInfo ''token'', PostImages sample_links, PostVideoCheck sample_video],
    Inl (HTTPException 504
      ''Network error for https://dwh-n8n.basalam.dev/webhook-test/Video-Check''))"
  by (simp add: handler_defs sample_defs)

text \<open>
  Claim C5, as the handler implements it. Provided the image request was sent and
  answered: a non-2xx image response fails the handler with HTTPException 502 whose
  detail names the image-upload URL and holds the body text of that response, unless the
  video check failed at transport level; and when the image response is 2xx with at least
  one valid id, a non-2xx video-check response fails the handler with HTTPException 502
  whose detail names the video-check URL and holds the body text of that response. The
  status code of the downstream response is not part of the error.
\<close>

theorem media_status_error_502:
  assumes "PostImages (photos (raw_data_json payload))
             \<in> set (fst (create_product_from_webhook client payload))"
    and "client (PostImages (photos (raw_data_json payload))) = Response image_response"
  shows "(\<not> is_success image_response \<and>
          (\<forall>v. video (raw_data_json payload) = Some v \<longrightarrow> client (PostVideoCheck v) \<noteq> NetworkError) \<longrightarrow>
            snd (create_product_from_webhook client payload) =
              Inl (HTTPException 502
                (''Error from media service '' @ SMART_UPLOADER_URL @ '': '' @
                 response_text image_response))) \<and>
         (is_success image_response \<and> json_body image_response = Some body \<and>
          image_ids_of body = Inr (first_id # other_ids) \<and>
          video (raw_data_json payload) = Some v \<and>
          client (PostVideoCheck v) = Response video_response \<and>
          \<not> is_success video_response \<longrightarrow>
            snd (create_product_from_webhook client payload) =
              Inl (HTTPException 502
                (''Error from media service '' @ VIDEO_CHECK_URL @ '': '' @
                 response_text video_response)))"
proof -
  from assms(1) obtain vid where vid: "snd (get_vendor_id client payload) = Inr vid"
    using image_request_sent by blast
  have image: "\<not> is_success image_response \<Longrightarrow>
      read_image_ids image_response =
        Inl (HTTPException 502
          (''Error from media service '' @ SMART_UPLOADER_URL @ '': '' @
           response_text image_response))"
    by (simp add: read_image_ids_def media_status_error_def)
  have ids: "is_success image_response \<Longrightarrow> json_body image_response = Some body \<Longrightarrow>
      image_ids_of body = Inr (first_id # other_ids) \<Longrightarrow>
      read_image_ids image_response = Inr (first_id # other_ids)"
    by (simp add: read_image_ids_def response_json_def)
  have video: "\<not> is_success video_response \<Longrightarrow>
      read_video_id video_response =
        Inl (HTTPException 502
          (''Error from media service '' @ VIDEO_CHECK_URL @ '': '' @
           response_text video_response))"
    by (simp add: read_video_id_def media_status_error_def)
  show ?thesis
  proof (intro conjI impI)
    assume h: "\<not> is_success image_response \<and>
          (\<forall>v. video (raw_data_json payload) = Some v \<longrightarrow> client (PostVideoCheck v) \<noteq> NetworkError)"
    then have "snd (process_media client payload) =
        Inl (HTTPException 502
          (''Error from media service '' @ SMART_UPLOADER_URL @ '': '' @
           response_text image_response))"
      using assms(2) image
      by (auto simp: process_media_result split: option.splits outcome.splits)
    then show "snd (create_product_from_webhook client payload) =
        Inl (HTTPException 502
          (''Error from media service '' @ SMART_UPLOADER_URL @ '': '' @
           response_text image_response))"
      using vid by (simp add: create_result)
  next
    assume h: "is_success image_response \<and> json_body image_response = Some body \<and>
          image_ids_of body = Inr (first_id # other_ids) \<and>
          video (raw_data_json payload) = Some v \<and>
          client (PostVideoCheck v) = Response video_response \<and>
          \<not> is_success video_response"
    then have "snd (process_media client payload) =
        Inl (HTTPException 502
          (''Error from media service '' @ VIDEO_CHECK_URL @ '': '' @
           response_text video_response))"
      using assms(2) ids video by (simp add: process_media_result)
    then show "snd (create_product_from_webhook client payload) =
        Inl (HTTPException 502
          (''Error from media service '' @ VIDEO_CHECK_URL @ '': '' @
           response_text video_response))"
      using vid by (simp add: create_result)
  qed
qed

theorem media_status_error_502_witness:
  "snd (create_product_from_webhook
     ((sample_client sample_data)(PostImages sample_links := reply 500 ''boom'' None))
     (sample_payload None)) =
   Inl (HTTPException 502
     ''Error from media service https://smart-uploader.basalam.dev/process-images: boom'') \<and>
   snd (create_product_from_webhook
     ((sample_client sample_data)(PostVideoCheck sample_video := reply 503 ''busy'' None))
     (sample_payload (Some sample_video))) =
   Inl (HTTPException 502
     ''Error from media service https://dwh-n8n.basalam.dev/webhook-test/Video-Check: busy'')"
  using media_status_error_502
    [of "sample_payload None"
        "(sample_client sample_data)(PostImages sample_links := reply 500 ''boom'' None)"
        "\<lparr>status_code = 500, response_text = ''boom'', json_body = None\<rparr>"]
    media_status_error_502
    [of "sample_payload (Some sample_video)"
        "(sample_client sample_data)(PostVideoCheck sample_video := reply 503 ''busy'' None)"
        "\<lparr>status_code = 200, response_text = ''images'',
          json_body = Some (JObj [(''processed_images'',
            JList [JObj [(''id'', JInt 101)], JObj [(''id'', JInt 102)]])])\<rparr>"
        "JObj [(''processed_images'', JList [JObj [(''id'', JInt 101)], JObj [(''id'', JInt 102)]])]"
        "JInt 101" "[JInt 102]" sample_video
        "\<lparr>status_code = 503, response_text = ''busy'', json_body = None\<rparr>"]
  by (simp add: handler_defs sample_defs)

text \<open>
  Claim C5 as stated fails in three ways: the error does not hold the downstream status
  (image responses 500 and 503 with the same body end the handler identically); a non-2xx
  image response next to a transport failure of the video check gives 504, not 502; and
  a non-2xx video-check response next to an image response without valid ids gives 400.
\<close>

theorem media_error_status_and_order:
  "create_product_from_webhook
     ((sample_client sample_data)(PostImages sample_links := reply 500 ''boom'' None))
     (sample_payload None) =
   create_product_from_webhook
     ((sample_client sample_data)(PostImages sample_links := reply 503 ''boom'' None))
     (sample_payload None) \<and>
   snd (create_product_from_webhook
     ((sample_client sample_data)
        (PostImages sample_links := reply 500 ''boom'' None,
         PostVideoCheck sample_video := NetworkError))
     (sample_payload (Some sample_video))) =
   Inl (HTTPException 504
     ''Network error for https://dwh-n8n.basalam.dev/webhook-test/Video-Check'') \<and>
   snd (create_product_from_webhook
     ((sample_client sample_data)
        (PostImages sample_links :=
           reply 200 ''images'' (Some (JObj [(''processed_images'', JList [])])),
         PostVideoCheck sample_video := reply 500 ''boom'' None))
     (sample_payload (Some sample_video))) =
   Inl (HTTPException 400 ''Uploader service returned no valid image IDs.'')"
  by (simp add: handler_defs sample_defs)

section \<open>Claims about the submitted draft\<close>

text \<open>
  Claim C2, as the handler implements it. Let the image response carry the processed
  images \<open>imgs\<close>, and let a draft be submitted. The ids collected are those of the
  processed images that have an \<open>id\<close> field, in their original order; images without the
  field are skipped. The draft's \<open>photo\<close> is the first collected id and its \<open>photos\<close>
  the list of the remaining ones. When every one of the N processed images has an
  \<open>id\<close> field, \<open>photo\<close> is the id of the first processed image and \<open>photos\<close> holds the
  ids of the remaining N - 1 images in order.
\<close>

theorem photo_and_photos_from_image_ids:
  assumes "PostProduct vendor_id token draft \<in> set (fst (create_product_from_webhook client payload))"
    and "client (PostImages (photos (raw_data_json payload))) = Response image_response"
    and "json_body image_response = Some (JObj body)"
    and "map_of body ''processed_images'' = Some (JList (map JObj imgs))"
  shows "\<exists>first_id other_ids.
           List.map_filter (\<lambda>img. map_of img ''id'') imgs = first_id # other_ids \<and>
           py_get draft ''photo'' JNull = Inr first_id \<and>
           py_get draft ''photos'' JNull = Inr (JList other_ids) \<and>
           ((\<forall>img\<in>set imgs. map_of img ''id'' \<noteq> None) \<longrightarrow>
              map_of (hd imgs) ''id'' = Some first_id \<and>
              map (\<lambda>img. map_of img ''id'') (tl imgs) = map Some other_ids \<and>
              length other_ids = length imgs - 1)"
proof -
  from assms(1) obtain first_id other_ids video_id d where
    m: "snd (process_media client payload) = Inr (first_id # other_ids, video_id)" and
    d: "draft = JObj d" "map_of d ''photo'' = Some first_id"
       "map_of d ''photos'' = Some (JList other_ids)"
    by (rule submitted_draft)
  from process_media_Inr [OF m] obtain r b where
    "client (PostImages (photos (raw_data_json payload))) = Response r"
    "json_body r = Some b" "image_ids_of b = Inr (first_id # other_ids)"
    by blast
  with assms(2,3) have "image_ids_of (JObj body) = Inr (first_id # other_ids)"
    by simp
  with image_ids_of_objects [OF assms(4)]
  have ids: "List.map_filter (\<lambda>img. map_of img ''id'') imgs = first_id # other_ids" by simp
  have all: "map_of (hd imgs) ''id'' = Some first_id \<and>
             map (\<lambda>img. map_of img ''id'') (tl imgs) = map Some other_ids \<and>
             length other_ids = length imgs - 1"
    if "\<forall>img\<in>set imgs. map_of img ''id'' \<noteq> None"
  proof -
    from map_filter_all [OF that] ids
    have eq: "map (\<lambda>img. map_of img ''id'') imgs = map Some (first_id # other_ids)" by simp
    then obtain img rest where imgs: "imgs = img # rest" by (cases imgs) simp_all
    from eq imgs have rest: "map (\<lambda>img. map_of img ''id'') rest = map Some other_ids" by simp
    then have "length rest = length other_ids" by (metis length_map)
    with eq imgs rest show ?thesis by simp
  qed
  have photo: "py_get draft ''photo'' JNull = Inr first_id"
    and photos: "py_get draft ''photos'' JNull = Inr (JList other_ids)"
    using d by simp_all
  from ids photo photos all show ?thesis by blast
qed

theorem photo_and_photos_from_image_ids_witness:
  "PostProduct (JInt 42) ''token'' sample_draft
     \<in> set (fst (create_product_from_webhook (sample_client sample_data) (sample_payload None))) \<and>
   py_get sample_draft ''photo'' JNull = Inr (JInt 101) \<and>
   py_get sample_draft ''photos'' JNull = Inr (JList [JInt 102])"
  using photo_and_photos_from_image_ids
    [of "JInt 42" "''token''" sample_draft "sample_client sample_data" "sample_payload None"
        "\<lparr>status_code = 200, response_text = ''images'',
          json_body = Some (JObj [(''processed_images'',
            JList [JObj [(''id'', JInt 101)], JObj [(''id'', JInt 102)]])])\<rparr>"
        "[(''processed_images'', JList [JObj [(''id'', JInt 101)], JObj [(''id'', JInt 102)]])]"
        "[ [(''id'', JInt 101)], [(''id'', JInt 102)] ]"]
  by (simp add: handler_defs sample_defs)

text \<open>
  Claim C2 as stated speaks of every successful image response with N processed images.
  With two processed images of which the first has no \<open>id\<close> field, the draft's
  \<open>photo\<close> is the id of the second image and \<open>photos\<close> is empty, not a list of
  N - 1 = 1 ids.
\<close>

theorem photo_skips_images_without_id:
  "fst (create_product_from_webhook
     ((sample_client sample_data)
        (PostImages sample_links :=
           reply 200 ''images''
             (Some (JObj [(''processed_images'',
                           JList [JObj [(''name'', JStr ''a'')], JObj [(''id'', JInt 7)]])]))))
     (sample_payload None)) =
   [GetUserInfo ''token'', PostImages sample_links, PostDescription ''shirt'',
    PostProduct (JInt 42) ''token''
      (JObj [(''title'', JStr ''shirt''), (''photo'', JInt 7), (''photos'', JList []),
             (''vendor_id'', JInt 42), (''preparation_days'', JInt 1), (''stock'', JInt 5),
             (''unit_type'', JInt 6304), (''unit_quantity'', JInt 1)])] \<and>
   getitem_id (JObj [(''name'', JStr ''a'')]) = Inl KeyError"
  by (simp add: handler_defs sample_defs)

text \<open>
  Claim C1, as the handler implements it. In the end-to-end run (vendor id 42, image
  ids 101 and 102, no video link, stock 5, message ``shirt'', a non-empty \<open>data\<close> object
  from the description service) the handler sends the user-info, image, description and
  submission requests, and the submitted draft is \<open>data\<close> updated, in this order, with
  photo 101, photos [102], vendor\_id 42, preparation\_days 1, stock 5, unit\_type 6304
  and unit\_quantity 1. No \<open>video\<close> key is added: the draft has one exactly when
  \<open>data\<close> already has one.
\<close>

theorem end_to_end_draft:
  assumes "client (GetUserInfo (access_token payload)) = Response user_info_response"
    and "is_success user_info_response"
    and "json_body user_info_response = Some (JObj user_data)"
    and "map_of user_data ''vendor'' = Some (JObj vendor)"
    and "map_of vendor ''id'' = Some (JInt 42)"
    and "client (PostImages (photos (raw_data_json payload))) = Response image_response"
    and "is_success image_response"
    and "json_body image_response = Some image_body"
    and "image_ids_of image_body = Inr [JInt 101, JInt 102]"
    and "video (raw_data_json payload) = None"
    and "stock (raw_data_json payload) = 5"
    and "message (raw_message (raw_data_json payload)) = ''shirt''"
    and "client (PostDescription ''shirt'') = Response prep_response"
    and "is_success prep_response"
    and "json_body prep_response = Some (JObj prep_body)"
    and "map_of prep_body ''data'' = Some (JObj data)"
    and "data \<noteq> []"
  shows "\<exists>draft.
           fst (create_product_from_webhook client payload) =
             [GetUserInfo (access_token payload), PostImages (photos (raw_data_json payload)),
              PostDescription ''shirt'',
              PostProduct (JInt 42) (access_token payload) (JObj draft)] \<and>
           draft =
             AList.updates
               [''photo'', ''photos'', ''vendor_id'', ''preparation_days'', ''stock'',
                ''unit_type'', ''unit_quantity'']
               [JInt 101, JList [JInt 102], JInt 42, JInt 1, JInt 5, JInt 6304, JInt 1] data \<and>
           (''video'' \<in> fst ` set draft \<longleftrightarrow> ''video'' \<in> fst ` set data)"
proof -
  let ?draft = "AList.updates
               [''photo'', ''photos'', ''vendor_id'', ''preparation_days'', ''stock'',
                ''unit_type'', ''unit_quantity'']
               [JInt 101, JList [JInt 102], JInt 42, JInt 1, JInt 5, JInt 6304, JInt 1] data"
  have v: "snd (get_vendor_id client payload) = Inr (JInt 42)"
    using assms(1-5) by (simp add: get_vendor_id_result)
  have "read_image_ids image_response = Inr [JInt 101, JInt 102]"
    using assms(7-9) by (simp add: read_image_ids_def response_json_def)
  then have m: "snd (process_media client payload) = Inr ([JInt 101, JInt 102], JNull)"
    using assms(6,10) by (simp add: process_media_result)
  have i: "inject_media_ids (JObj data) [JInt 101, JInt 102] JNull (JInt 42) 5 = Inr (JObj ?draft)"
    by (simp add: inject_media_ids_object)
  have p: "snd (prepare_payload client payload (JInt 42) [JInt 101, JInt 102] JNull) =
             Inr (JObj ?draft)"
    using assms(11-17) i by (simp add: prepare_payload_result)
  have t: "fst (create_product_from_webhook client payload) =
             [GetUserInfo (access_token payload), PostImages (photos (raw_data_json payload)),
              PostDescription ''shirt'',
              PostProduct (JInt 42) (access_token payload) (JObj ?draft)]"
    using v m p assms(10,12) by (simp add: create_trace fst_process_media)
  have k: "''video'' \<in> fst ` set ?draft \<longleftrightarrow> ''video'' \<in> fst ` set data"
    by (simp add: AList.dom_update)
  from t k show ?thesis by blast
qed

text \<open>
  The run on the sample services: the draft is the sample draft, and looking up
  \<open>video\<close> in it gives the default, since the key is absent.
\<close>

theorem end_to_end_draft_witness:
  "fst (create_product_from_webhook (sample_client sample_data) (sample_payload None)) =
     [GetUserInfo ''token'', PostImages sample_links, PostDescription ''shirt'',
      PostProduct (JInt 42) ''token'' sample_draft] \<and>
   py_get sample_draft ''video'' (JStr ''no video key'') = Inr (JStr ''no video key'')"
  using end_to_end_draft
    [of "sample_client sample_data" "sample_payload None"
        "\<lparr>status_code = 200, response_text = ''user'',
          json_body = Some (JObj [(''vendor'', JObj [(''id'', JInt 42)])])\<rparr>"
        "[(''vendor'', JObj [(''id'', JInt 42)])]" "[(''id'', JInt 42)]"
        "\<lparr>status_code = 200, response_text = ''images'',
          json_body = Some (JObj [(''processed_images'',
            JList [JObj [(''id'', JInt 101)], JObj [(''id'', JInt 102)]])])\<rparr>"
        "JObj [(''processed_images'', JList [JObj [(''id'', JInt 101)], JObj [(''id'', JInt 102)]])]"
        "\<lparr>status_code = 200, response_text = ''description'',
          json_body = Some (JObj [(''data'', JObj [(''title'', JStr ''shirt'')])])\<rparr>"
        "[(''data'', JObj [(''title'', JStr ''shirt'')])]" "[(''title'', JStr ''shirt'')]"]
  by (simp add: handler_defs sample_defs)

text \<open>
  Claim C1 as stated says that the draft contains no \<open>video\<close> key. The handler never
  removes a key of \<open>data\<close>: when the description service's data fields hold a
  \<open>video\<close> entry, the draft of the same end-to-end run holds it too.
\<close>

theorem end_to_end_draft_keeps_video_key:
  "fst (create_product_from_webhook
     (sample_client (JObj [(''title'', JStr ''shirt''), (''video'', JInt 9)]))
     (sample_payload None)) =
   [GetUserInfo ''token'', PostImages sample_links, PostDescription ''shirt'',
    PostProduct (JInt 42) ''token''
      (JObj [(''title'', JStr ''shirt''), (''video'', JInt 9), (''photo'', JInt 101),
             (''photos'', JList [JInt 102]), (''vendor_id'', JInt 42),
             (''preparation_days'', JInt 1), (''stock'', JInt 5), (''unit_type'', JInt 6304),
             (''unit_quantity'', JInt 1)])] \<and>
   py_get
     (JObj [(''title'', JStr ''shirt''), (''video'', JInt 9), (''photo'', JInt 101),
            (''photos'', JList [JInt 102]), (''vendor_id'', JInt 42),
            (''preparation_days'', JInt 1), (''stock'', JInt 5), (''unit_type'', JInt 6304),
            (''unit_quantity'', JInt 1)])
     ''video'' JNull = Inr (JInt 9)"
  by (simp add: handler_defs sample_defs)

section \<open>Claims about the description stage\<close>

text \<open>
  Claim C6, as the handler implements it. Let the description request be sent and
  answered with a 2xx response. If the body is a JSON object whose \<open>data\<close> is missing or
  falsy (null, an empty object, ...), the handler fails with HTTPException 500
  ``Received invalid payload from description service.''. Whenever the response has no
  non-empty \<open>data\<close> object, the handler ends with an error and sends no product
  submission.
\<close>

theorem invalid_description_payload:
  assumes "PostDescription raw_text \<in> set (fst (create_product_from_webhook client payload))"
    and "client (PostDescription raw_text) = Response prep_response"
    and "is_success prep_response"
  shows "(json_body prep_response = Some (JObj body) \<and>
          (\<forall>data. map_of body ''data'' = Some data \<longrightarrow> \<not> truthy data) \<longrightarrow>
            snd (create_product_from_webhook client payload) =
              Inl (HTTPException 500 ''Received invalid payload from description service.'')) \<and>
         (\<not> (\<exists>body data. json_body prep_response = Some (JObj body) \<and>
                map_of body ''data'' = Some (JObj data) \<and> data \<noteq> []) \<longrightarrow>
            (\<exists>e. snd (create_product_from_webhook client payload) = Inl e) \<and>
            PostProduct vendor_id token draft
              \<notin> set (fst (create_product_from_webhook client payload)))"
proof -
  from assms(1) obtain vid image_ids video_id where
    t: "raw_text = message (raw_message (raw_data_json payload))" and
    v: "snd (get_vendor_id client payload) = Inr vid" and
    m: "snd (process_media client payload) = Inr (image_ids, video_id)"
    by (rule description_request_sent)
  note r = assms(2) [unfolded t]
  show ?thesis
  proof (intro conjI impI)
    assume h: "json_body prep_response = Some (JObj body) \<and>
          (\<forall>data. map_of body ''data'' = Some data \<longrightarrow> \<not> truthy data)"
    then have "snd (prepare_payload client payload vid image_ids video_id) =
        Inl (HTTPException 500 ''Received invalid payload from description service.'')"
      using r assms(3) by (auto simp: prepare_payload_result split: option.splits)
    then show "snd (create_product_from_webhook client payload) =
        Inl (HTTPException 500 ''Received invalid payload from description service.'')"
      using v m by (simp add: create_result)
  next
    assume h: "\<not> (\<exists>body data. json_body prep_response = Some (JObj body) \<and>
                map_of body ''data'' = Some (JObj data) \<and> data \<noteq> [])"
    from prepare_payload_rejects
      [of client payload prep_response vid image_ids video_id, OF r assms(3) h]
    obtain e where e: "snd (prepare_payload client payload vid image_ids video_id) = Inl e"
      by blast
    then show "\<exists>e. snd (create_product_from_webhook client payload) = Inl e"
      using v m by (simp add: create_result)
    show "PostProduct vendor_id token draft
              \<notin> set (fst (create_product_from_webhook client payload))"
      using v m e by (auto simp: create_trace fst_process_media split: option.splits)
  qed
qed

theorem invalid_description_payload_witness:
  "create_product_from_webhook (sample_client (JObj [])) (sample_payload None) =
     ([GetUserInfo ''token'', PostImages sample_links, PostDescription ''shirt''],
      Inl (HTTPException 500 ''Received invalid payload from description service.'')) \<and>
   PostProduct (JInt 42) ''token'' sample_draft
     \<notin> set (fst (create_product_from_webhook (sample_client (JObj [])) (sample_payload None)))"
  using invalid_description_payload
    [of "''shirt''" "sample_client (JObj [])" "sample_payload None"
        "\<lparr>status_code = 200, response_text = ''description'',
          json_body = Some (JObj [(''data'', JObj [])])\<rparr>"
        "[(''data'', JObj [])]" "JInt 42" "''token''" sample_draft]
  by (simp add: handler_defs sample_defs)

text \<open>
  Claim C6 as stated promises the ``invalid payload'' error for every 2xx response without
  a non-empty data object. A \<open>data\<close> that is a non-empty string passes the test
  \<^verbatim>\<open>if not basalam_ready_payload\<close>; the first assignment of step 4 then raises a
  TypeError that no clause of the handler catches.
\<close>

theorem description_data_not_an_object:
  "create_product_from_webhook (sample_client (JStr ''A cotton shirt.'')) (sample_payload None) =
     ([GetUserInfo ''token'', PostImages sample_links, PostDescription ''shirt''],
      Inl (Unhandled TypeError))"
  by (simp add: handler_defs sample_defs)

section \<open>Claims about the video verdict\<close>

text \<open>
  Claim C7, as the handler implements it. Let the payload have a video link whose check
  is answered 2xx with a truthy \<open>is_forbidden\<close>. Then the video id stays unset (\<open>JNull\<close>
  for Python's None); with a usable image response the media stage succeeds with that
  unset id and, when it was reached at all, the description request follows; and the
  handler adds no \<open>video\<close> field: in every submitted draft the \<open>video\<close> entry is
  the one of the description service's \<open>data\<close>, absent when \<open>data\<close> has none.
\<close>

theorem forbidden_video_not_injected:
  assumes "video (raw_data_json payload) = Some link"
    and "client (PostVideoCheck link) = Response video_response"
    and "is_success video_response"
    and "json_body video_response = Some (JObj video_body)"
    and "map_of video_body ''is_forbidden'' = Some flag"
    and "truthy flag"
  shows "read_video_id video_response = Inr JNull \<and>
         (client (PostImages (photos (raw_data_json payload))) = Response image_response \<and>
          is_success image_response \<and> json_body image_response = Some image_body \<and>
          image_ids_of image_body = Inr (first_id # other_ids) \<longrightarrow>
            process_media client payload =
              ([PostImages (photos (raw_data_json payload)), PostVideoCheck link],
               Inr (first_id # other_ids, JNull)) \<and>
            (PostImages (photos (raw_data_json payload))
               \<in> set (fst (create_product_from_webhook client payload)) \<longrightarrow>
             PostDescription (message (raw_message (raw_data_json payload)))
               \<in> set (fst (create_product_from_webhook client payload)))) \<and>
         (PostProduct vendor_id token draft
            \<in> set (fst (create_product_from_webhook client payload)) \<longrightarrow>
            (\<exists>prep_response prep_body data d.
               client (PostDescription (message (raw_message (raw_data_json payload)))) =
                 Response prep_response \<and>
               json_body prep_response = Some (JObj prep_body) \<and>
               map_of prep_body ''data'' = Some (JObj data) \<and>
               draft = JObj d \<and> map_of d ''video'' = map_of data ''video''))"
proof -
  have v: "read_video_id video_response = Inr JNull"
    using assms(3-6) by (simp add: read_video_id_def response_json_def)
  have none: "\<not> truthy video_id"
    if "snd (process_media client payload) = Inr (image_ids, video_id)" for image_ids video_id
    using video_id_of_media [of client payload image_ids video_id link video_response]
      that assms(1,2) v by simp
  show ?thesis
  proof (intro conjI impI)
    show "read_video_id video_response = Inr JNull" by (rule v)
  next
    assume h: "client (PostImages (photos (raw_data_json payload))) = Response image_response \<and>
          is_success image_response \<and> json_body image_response = Some image_body \<and>
          image_ids_of image_body = Inr (first_id # other_ids)"
    then show m: "process_media client payload =
              ([PostImages (photos (raw_data_json payload)), PostVideoCheck link],
               Inr (first_id # other_ids, JNull))"
      using media_with_video
        [of payload link client video_response JNull image_response image_body first_id
            other_ids] assms(1,2) v
      by blast
    assume "PostImages (photos (raw_data_json payload))
               \<in> set (fst (create_product_from_webhook client payload))"
    then show "PostDescription (message (raw_message (raw_data_json payload)))
               \<in> set (fst (create_product_from_webhook client payload))"
      using description_follows_media m by (metis snd_conv)
  next
    assume "PostProduct vendor_id token draft
            \<in> set (fst (create_product_from_webhook client payload))"
    then show "\<exists>prep_response prep_body data d.
               client (PostDescription (message (raw_message (raw_data_json payload)))) =
                 Response prep_response \<and>
               json_body prep_response = Some (JObj prep_body) \<and>
               map_of prep_body ''data'' = Some (JObj data) \<and>
               draft = JObj d \<and> map_of d ''video'' = map_of data ''video''"
      using none by (rule draft_video_untouched)
  qed
qed

theorem forbidden_video_not_injected_witness:
  "fst (create_product_from_webhook
     ((sample_client sample_data)
        (PostVideoCheck sample_video :=
           reply 200 ''video'' (Some (JObj [(''is_forbidden'', JBool True), (''id'', JInt 7)]))))
     (sample_payload (Some sample_video))) =
   [GetUserInfo ''token'', PostImages sample_links, PostVideoCheck sample_video,
    PostDescription ''shirt'', PostProduct (JInt 42) ''token'' sample_draft] \<and>
   py_get sample_draft ''video'' (JStr ''no video key'') = Inr (JStr ''no video key'')"
  using forbidden_video_not_injected
    [where payload = "sample_payload (Some sample_video)" and link = sample_video
       and client = "(sample_client sample_data)
          (PostVideoCheck sample_video :=
             reply 200 ''video'' (Some (JObj [(''is_forbidden'', JBool True), (''id'', JInt 7)])))"
       and video_response = "\<lparr>status_code = 200, response_text = ''video'',
          json_body = Some (JObj [(''is_forbidden'', JBool True), (''id'', JInt 7)])\<rparr>"
       and video_body = "[(''is_forbidden'', JBool True), (''id'', JInt 7)]"
       and flag = "JBool True"
       and image_response = "\<lparr>status_code = 200, response_text = ''images'',
          json_body = Some (JObj [(''processed_images'',
            JList [JObj [(''id'', JInt 101)], JObj [(''id'', JInt 102)]])])\<rparr>"
       and image_body = "JObj [(''processed_images'',
            JList [JObj [(''id'', JInt 101)], JObj [(''id'', JInt 102)]])]"
       and first_id = "JInt 101" and other_ids = "[JInt 102]"
       and vendor_id = "JInt 42" and token = "''token''" and draft = sample_draft]
  by (simp add: handler_defs sample_defs)

text \<open>
  Claim C7 as stated says that the submitted draft contains no \<open>video\<close> field. With a
  forbidden video and description data that already holds a \<open>video\<close> entry, the submitted
  draft holds that entry.
\<close>

theorem forbidden_video_draft_keeps_video_key:
  "fst (create_product_from_webhook
     ((sample_client (JObj [(''title'', JStr ''shirt''), (''video'', JInt 9)]))
        (PostVideoCheck sample_video :=
           reply 200 ''video'' (Some (JObj [(''is_forbidden'', JBool True), (''id'', JInt 7)]))))
     (sample_payload (Some sample_video))) =
   [GetUserInfo ''token'', PostImages sample_links, PostVideoCheck sample_video,
    PostDescription ''shirt'',
    PostProduct (JInt 42) ''token''
      (JObj [(''title'', JStr ''shirt''), (''video'', JInt 9), (''photo'', JInt 101),
             (''photos'', JList [JInt 102]), (''vendor_id'', JInt 42),
             (''preparation_days'', JInt 1), (''stock'', JInt 5), (''unit_type'', JInt 6304),
             (''unit_quantity'', JInt 1)])] \<and>
   py_get
     (JObj [(''title'', JStr ''shirt''), (''video'', JInt 9), (''photo'', JInt 101),
            (''photos'', JList [JInt 102]), (''vendor_id'', JInt 42),
            (''preparation_days'', JInt 1), (''stock'', JInt 5), (''unit_type'', JInt 6304),
            (''unit_quantity'', JInt 1)])
     ''video'' JNull = Inr (JInt 9)"
  by (simp add: handler_defs sample_defs)

text \<open>
  Claim C10. Let the payload have a video link whose check is answered 2xx with a JSON
  object in which \<open>is_forbidden\<close> is missing or falsy, and let \<open>response_id\<close> be the
  object's \<open>id\<close> (None when missing). A missing key is treated like a false verdict:
  with a usable image response the media stage of the handler succeeds with exactly
  \<open>response_id\<close> as video id and, when it was reached at all, the description request
  follows; and in every submitted draft the \<open>video\<close> entry is \<open>response_id\<close> when that
  is truthy and otherwise the entry of the description service's \<open>data\<close>. In
  particular, if the \<open>id\<close> is missing, null or 0, the video id is falsy, the pipeline
  continues in the same way, and no \<open>video\<close> field is set from it.
\<close>

theorem lenient_video_response:
  assumes "video (raw_data_json payload) = Some link"
    and "client (PostVideoCheck link) = Response video_response"
    and "is_success video_response"
    and "json_body video_response = Some (JObj video_body)"
    and "\<forall>flag. map_of video_body ''is_forbidden'' = Some flag \<longrightarrow> \<not> truthy flag"
    and "response_id = (case map_of video_body ''id'' of None \<Rightarrow> JNull | Some x \<Rightarrow> x)"
  shows "read_video_id video_response = Inr response_id \<and>
         (client (PostImages (photos (raw_data_json payload))) = Response image_response \<and>
          is_success image_response \<and> json_body image_response = Some image_body \<and>
          image_ids_of image_body = Inr (first_id # other_ids) \<longrightarrow>
            process_media client payload =
              ([PostImages (photos (raw_data_json payload)), PostVideoCheck link],
               Inr (first_id # other_ids, response_id)) \<and>
            (PostImages (photos (raw_data_json payload))
               \<in> set (fst (create_product_from_webhook client payload)) \<longrightarrow>
             PostDescription (message (raw_message (raw_data_json payload)))
               \<in> set (fst (create_product_from_webhook client payload)))) \<and>
         (PostProduct vendor_id token draft
            \<in> set (fst (create_product_from_webhook client payload)) \<longrightarrow>
            (\<exists>prep_response prep_body data d.
               client (PostDescription (message (raw_message (raw_data_json payload)))) =
                 Response prep_response \<and>
               json_body prep_response = Some (JObj prep_body) \<and>
               map_of prep_body ''data'' = Some (JObj data) \<and>
               draft = JObj d \<and>
               map_of d ''video'' =
                 (if truthy response_id then Some response_id else map_of data ''video''))) \<and>
         (map_of video_body ''id'' \<in> {None, Some JNull, Some (JInt 0)} \<longrightarrow>
            \<not> truthy response_id \<and>
            (PostProduct vendor_id token draft
               \<in> set (fst (create_product_from_webhook client payload)) \<longrightarrow>
               (\<exists>prep_response prep_body data d.
                  client (PostDescription (message (raw_message (raw_data_json payload)))) =
                    Response prep_response \<and>
                  json_body prep_response = Some (JObj prep_body) \<and>
                  map_of prep_body ''data'' = Some (JObj data) \<and>
                  draft = JObj d \<and> map_of d ''video'' = map_of data ''video'')))"
proof -
  have v: "read_video_id video_response = Inr response_id"
    using assms(3-6)
    by (cases "map_of video_body ''is_forbidden''")
       (simp_all add: read_video_id_def response_json_def)
  have same: "video_id = response_id"
    if "snd (process_media client payload) = Inr (image_ids, video_id)" for image_ids video_id
    using video_id_of_media [of client payload image_ids video_id link video_response]
      that assms(1,2) v by simp
  have draft: "\<exists>prep_response prep_body data d.
               client (PostDescription (message (raw_message (raw_data_json payload)))) =
                 Response prep_response \<and>
               json_body prep_response = Some (JObj prep_body) \<and>
               map_of prep_body ''data'' = Some (JObj data) \<and>
               draft = JObj d \<and>
               map_of d ''video'' =
                 (if truthy response_id then Some response_id else map_of data ''video'')"
    if "PostProduct vendor_id token draft
            \<in> set (fst (create_product_from_webhook client payload))"
    using that same by (rule draft_video_of_media)
  have falsy: "\<not> truthy response_id"
    if "map_of video_body ''id'' \<in> {None, Some JNull, Some (JInt 0)}"
    using that assms(6) by auto
  show ?thesis
  proof (intro conjI impI)
    show "read_video_id video_response = Inr response_id" by (rule v)
  next
    assume h: "client (PostImages (photos (raw_data_json payload))) = Response image_response \<and>
          is_success image_response \<and> json_body image_response = Some image_body \<and>
          image_ids_of image_body = Inr (first_id # other_ids)"
    then show m: "process_media client payload =
              ([PostImages (photos (raw_data_json payload)), PostVideoCheck link],
               Inr (first_id # other_ids, response_id))"
      using media_with_video
        [of payload link client video_response response_id image_response image_body first_id
            other_ids] assms(1,2) v
      by blast
    assume "PostImages (photos (raw_data_json payload))
               \<in> set (fst (create_product_from_webhook client payload))"
    then show "PostDescription (message (raw_message (raw_data_json payload)))
               \<in> set (fst (create_product_from_webhook client payload))"
      using description_follows_media m by (metis snd_conv)
  next
    assume "PostProduct vendor_id token draft
            \<in> set (fst (create_product_from_webhook client payload))"
    then show "\<exists>prep_response prep_body data d.
               client (PostDescription (message (raw_message (raw_data_json payload)))) =
                 Response prep_response \<and>
               json_body prep_response = Some (JObj prep_body) \<and>
               map_of prep_body ''data'' = Some (JObj data) \<and>
               draft = JObj d \<and>
               map_of d ''video'' =
                 (if truthy response_id then Some response_id else map_of data ''video'')"
      by (rule draft)
  next
    assume "map_of video_body ''id'' \<in> {None, Some JNull, Some (JInt 0)}"
    then show "\<not> truthy response_id" by (rule falsy)
  next
    assume i: "map_of video_body ''id'' \<in> {None, Some JNull, Some (JInt 0)}"
    assume "PostProduct vendor_id token draft
               \<in> set (fst (create_product_from_webhook client payload))"
    from draft [OF this] falsy [OF i]
    show "\<exists>prep_response prep_body data d.
                  client (PostDescription (message (raw_message (raw_data_json payload)))) =
                    Response prep_response \<and>
                  json_body prep_response = Some (JObj prep_body) \<and>
                  map_of prep_body ''data'' = Some (JObj data) \<and>
                  draft = JObj d \<and> map_of d ''video'' = map_of data ''video''"
      by simp
  qed
qed

text \<open>
  Two runs on the sample services, both with a video-check response without
  \<open>is_forbidden\<close>: with id 7 the video is accepted and the draft carries video 7; with
  id 0 the media stage succeeds with video id 0 and the draft is the sample draft, which
  has no \<open>video\<close> key.
\<close>

theorem lenient_video_response_witness:
  "fst (create_product_from_webhook
     ((sample_client sample_data)
        (PostVideoCheck sample_video := reply 200 ''video'' (Some (JObj [(''id'', JInt 7)]))))
     (sample_payload (Some sample_video))) =
   [GetUserInfo ''token'', PostImages sample_links, PostVideoCheck sample_video,
    PostDescription ''shirt'',
    PostProduct (JInt 42) ''token''
      (JObj [(''title'', JStr ''shirt''), (''photo'', JInt 101), (''photos'', JList [JInt 102]),
             (''video'', JInt 7), (''vendor_id'', JInt 42), (''preparation_days'', JInt 1),
             (''stock'', JInt 5), (''unit_type'', JInt 6304), (''unit_quantity'', JInt 1)])] \<and>
   process_media
     ((sample_client sample_data)
        (PostVideoCheck sample_video := reply 200 ''video'' (Some (JObj [(''id'', JInt 7)]))))
     (sample_payload (Some sample_video)) =
   ([PostImages sample_links, PostVideoCheck sample_video],
    Inr ([JInt 101, JInt 102], JInt 7)) \<and>
   process_media
     ((sample_client sample_data)
        (PostVideoCheck sample_video := reply 200 ''video'' (Some (JObj [(''id'', JInt 0)]))))
     (sample_payload (Some sample_video)) =
   ([PostImages sample_links, PostVideoCheck sample_video],
    Inr ([JInt 101, JInt 102], JInt 0)) \<and>
   fst (create_product_from_webhook
     ((sample_client sample_data)
        (PostVideoCheck sample_video := reply 200 ''video'' (Some (JObj [(''id'', JInt 0)]))))
     (sample_payload (Some sample_video))) =
   [GetUserInfo ''token'', PostImages sample_links, PostVideoCheck sample_video,
    PostDescription ''shirt'', PostProduct (JInt 42) ''token'' sample_draft] \<and>
   py_get sample_draft ''video'' (JStr ''no video key'') = Inr (JStr ''no video key'')"
  using lenient_video_response
    [where payload = "sample_payload (Some sample_video)" and link = sample_video
       and client = "(sample_client sample_data)
          (PostVideoCheck sample_video := reply 200 ''video'' (Some (JObj [(''id'', JInt 7)])))"
       and video_response = "\<lparr>status_code = 200, response_text = ''video'',
          json_body = Some (JObj [(''id'', JInt 7)])\<rparr>"
       and video_body = "[(''id'', JInt 7)]" and response_id = "JInt 7"
       and image_response = "\<lparr>status_code = 200, response_text = ''images'',
          json_body = Some (JObj [(''processed_images'',
            JList [JObj [(''id'', JInt 101)], JObj [(''id'', JInt 102)]])])\<rparr>"
       and image_body = "JObj [(''processed_images'',
            JList [JObj [(''id'', JInt 101)], JObj [(''id'', JInt 102)]])]"
       and first_id = "JInt 101" and other_ids = "[JInt 102]"
       and vendor_id = "JInt 42" and token = "''token''"
       and draft = "JObj [(''title'', JStr ''shirt''), (''photo'', JInt 101),
             (''photos'', JList [JInt 102]), (''video'', JInt 7), (''vendor_id'', JInt 42),
             (''preparation_days'', JInt 1), (''stock'', JInt 5), (''unit_type'', JInt 6304),
             (''unit_quantity'', JInt 1)]"]
    lenient_video_response
    [where payload = "sample_payload (Some sample_video)" and link = sample_video
       and client = "(sample_client sample_data)
          (PostVideoCheck sample_video := reply 200 ''video'' (Some (JObj [(''id'', JInt 0)])))"
       and video_response = "\<lparr>status_code = 200, response_text = ''video'',
          json_body = Some (JObj [(''id'', JInt 0)])\<rparr>"
       and video_body = "[(''id'', JInt 0)]" and response_id = "JInt 0"
       and image_response = "\<lparr>status_code = 200, response_text = ''images'',
          json_body = Some (JObj [(''processed_images'',
            JList [JObj [(''id'', JInt 101)], JObj [(''id'', JInt 102)]])])\<rparr>"
       and image_body = "JObj [(''processed_images'',
            JList [JObj [(''id'', JInt 101)], JObj [(''id'', JInt 102)]])]"
       and first_id = "JInt 101" and other_ids = "[JInt 102]"
       and vendor_id = "JInt 42" and token = "''token''" and draft = sample_draft]
  by (simp add: handler_defs sample_defs)

end
